theory Spec2Isabelle
  imports Complex_Main "HOL-Library.Sublist"
begin

section \<open>The LemLib v0.4 path file codec of path.jerryio\<close>

text \<open>
  The development embeds \<^verbatim>\<open>src/format/LemLibFormatV0_4.tsx\<close>: the parser
  \<^verbatim>\<open>recoverPathFileData\<close> and the serialiser \<^verbatim>\<open>exportPathFile\<close>.

  Conventions of the embedding.
  \<^item> A JavaScript string is an Isabelle \<open>string\<close>; only code units below 256 occur.
  \<^item> A JavaScript number is a \<open>jsnum\<close>: \<open>NaN\<close>, the two infinities, or a finite value.
    Finite values are exact reals: the binary rounding of IEEE doubles, overflow to
    \<open>Infinity\<close> and the sign of zero are not modelled.
  \<^item> A thrown \<^verbatim>\<open>Error\<close> is a value of type \<open>error\<close>, the result type is
    \<open>error + 'a\<close>.
\<close>

subsection \<open>JavaScript numbers\<close>

datatype jsnum = NaN | NegInf | Fin real | PosInf

definition isNaN :: "jsnum \<Rightarrow> bool" where
  "isNaN v \<longleftrightarrow> v = NaN"

text \<open>\<^verbatim>\<open>a !== b\<close> on numbers is \<open>\<not> strictEq a b\<close>: \<open>NaN\<close> is unequal to itself.\<close>

definition strictEq :: "jsnum \<Rightarrow> jsnum \<Rightarrow> bool" where
  "strictEq a b \<longleftrightarrow> a = b \<and> a \<noteq> NaN"

fun jless :: "jsnum \<Rightarrow> jsnum \<Rightarrow> bool" where
  "jless NaN _ = False"
| "jless _ NaN = False"
| "jless (Fin a) (Fin b) = (a < b)"
| "jless NegInf NegInf = False"
| "jless NegInf _ = True"
| "jless _ NegInf = False"
| "jless PosInf _ = False"
| "jless _ PosInf = True"

text \<open>\<^verbatim>\<open>Math.min\<close> and \<^verbatim>\<open>Math.max\<close>: \<open>NaN\<close> if an argument is \<open>NaN\<close>.\<close>

definition Math_min :: "jsnum \<Rightarrow> jsnum \<Rightarrow> jsnum" where
  "Math_min a b = (if a = NaN \<or> b = NaN then NaN else if jless b a then b else a)"

definition Math_max :: "jsnum \<Rightarrow> jsnum \<Rightarrow> jsnum" where
  "Math_max a b = (if a = NaN \<or> b = NaN then NaN else if jless a b then b else a)"

fun jneg :: "jsnum \<Rightarrow> jsnum" where
  "jneg NaN = NaN"
| "jneg NegInf = PosInf"
| "jneg (Fin a) = Fin (- a)"
| "jneg PosInf = NegInf"

fun jadd :: "jsnum \<Rightarrow> jsnum \<Rightarrow> jsnum" where
  "jadd NaN _ = NaN"
| "jadd _ NaN = NaN"
| "jadd (Fin a) (Fin b) = Fin (a + b)"
| "jadd PosInf NegInf = NaN"
| "jadd NegInf PosInf = NaN"
| "jadd PosInf _ = PosInf"
| "jadd _ PosInf = PosInf"
| "jadd NegInf _ = NegInf"
| "jadd _ NegInf = NegInf"

definition jsub :: "jsnum \<Rightarrow> jsnum \<Rightarrow> jsnum" where
  "jsub a b = jadd a (jneg b)"

text \<open>The sign of a number that is not \<open>NaN\<close>: \<open>-1\<close>, \<open>0\<close> or \<open>1\<close>.\<close>

fun jsign :: "jsnum \<Rightarrow> int" where
  "jsign NaN = 0"
| "jsign NegInf = - 1"
| "jsign (Fin a) = (if a < 0 then - 1 else if a = 0 then 0 else 1)"
| "jsign PosInf = 1"

definition signedInf :: "int \<Rightarrow> jsnum" where
  "signedInf s = (if s < 0 then NegInf else if s = 0 then NaN else PosInf)"

fun jmul :: "jsnum \<Rightarrow> jsnum \<Rightarrow> jsnum" where
  "jmul NaN _ = NaN"
| "jmul _ NaN = NaN"
| "jmul (Fin a) (Fin b) = Fin (a * b)"
| "jmul a b = signedInf (jsign a * jsign b)"

text \<open>Division; a zero divisor counts as \<open>+0\<close>.\<close>

fun jdiv :: "jsnum \<Rightarrow> jsnum \<Rightarrow> jsnum" where
  "jdiv NaN _ = NaN"
| "jdiv _ NaN = NaN"
| "jdiv (Fin a) (Fin b) = (if b = 0 then signedInf (jsign (Fin a)) else Fin (a / b))"
| "jdiv (Fin a) _ = Fin 0"
| "jdiv a (Fin b) = signedInf (jsign a * (if b < 0 then - 1 else 1))"
| "jdiv _ _ = NaN"

fun Math_sqrt :: "jsnum \<Rightarrow> jsnum" where
  "Math_sqrt (Fin a) = (if a < 0 then NaN else Fin (sqrt a))"
| "Math_sqrt PosInf = PosInf"
| "Math_sqrt _ = NaN"

text \<open>
  The value of \<^verbatim>\<open>parseFloat(v.toFixed(3))\<close> and of \<^verbatim>\<open>Number(v.toFixed(3))\<close>.
  \<^verbatim>\<open>toFixed(3)\<close> takes the integer \<open>n\<close> with \<open>n / 1000\<close> closest to the magnitude, the
  larger one on a tie, and keeps the sign; from \<open>10\<^sup>2\<^sup>1\<close> on, and on \<open>NaN\<close> and the
  infinities, it is the plain conversion to a string, which parses back to \<open>v\<close>.
\<close>

definition round3 :: "real \<Rightarrow> real" where
  "round3 r = (if r < 0 then - (of_int \<lfloor>(- r) * 1000 + 1 / 2\<rfloor> / 1000)
               else of_int \<lfloor>r * 1000 + 1 / 2\<rfloor> / 1000)"

fun toFixed3 :: "jsnum \<Rightarrow> jsnum" where
  "toFixed3 (Fin r) = (if \<bar>r\<bar> < 10 ^ 21 then Fin (round3 r) else Fin r)"
| "toFixed3 v = v"

subsection \<open>JavaScript strings\<close>

text \<open>
  \<^verbatim>\<open>s.split(sep)\<close> for a string separator: the pieces between the occurrences of
  \<open>sep\<close>, found from left to right without overlap. The accumulator holds the
  current piece, reversed. With the empty separator the pieces are the code units.
\<close>

function split_from :: "string \<Rightarrow> string \<Rightarrow> string \<Rightarrow> string list" where
  "split_from sep acc [] = [rev acc]"
| "split_from sep acc (c # cs) =
     (if sep \<noteq> [] \<and> prefix sep (c # cs)
      then rev acc # split_from sep [] (drop (length sep) (c # cs))
      else split_from sep (c # acc) cs)"
  by pat_completeness auto
termination
  by (relation "measure (\<lambda>(sep, acc, s). length s)") (auto simp: prefix_def)

definition js_split :: "string \<Rightarrow> string \<Rightarrow> string list" where
  "js_split sep s = (if sep = [] then map (\<lambda>c. [c]) s else split_from sep [] s)"

text \<open>\<^verbatim>\<open>xs.findIndex(p)\<close>: the first index whose element satisfies \<open>p\<close>; \<open>None\<close> is \<open>-1\<close>.\<close>

fun findIndex :: "('a \<Rightarrow> bool) \<Rightarrow> 'a list \<Rightarrow> nat option" where
  "findIndex p [] = None"
| "findIndex p (x # xs) =
     (if p x then Some 0 else map_option Suc (findIndex p xs))"

subsection \<open>The conversion \<^verbatim>\<open>Number(string)\<close>\<close>

text \<open>
  \<^verbatim>\<open>Number\<close> applied to a string follows the grammar \<open>StringNumericLiteral\<close> of
  ECMAScript: white space is trimmed, the empty string is \<open>0\<close>, a literal is a signed
  decimal literal (with \<open>Infinity\<close>) or an unsigned hexadecimal, octal or binary
  integer, and everything else is \<open>NaN\<close>.
\<close>

definition isStrWhiteSpaceChar :: "char \<Rightarrow> bool" where
  "isStrWhiteSpaceChar c \<longleftrightarrow>
     (of_char c :: nat) \<in> {0x09, 0x0A, 0x0B, 0x0C, 0x0D, 0x20, 0xA0}"

definition trim :: "string \<Rightarrow> string" where
  "trim s = rev (dropWhile isStrWhiteSpaceChar (rev (dropWhile isStrWhiteSpaceChar s)))"

definition isDigit :: "char \<Rightarrow> bool" where
  "isDigit c \<longleftrightarrow> 48 \<le> (of_char c :: nat) \<and> (of_char c :: nat) \<le> 57"

text \<open>The value of a digit in a base up to 16, \<open>None\<close> if the character is no such digit.\<close>

definition digitValue :: "nat \<Rightarrow> char \<Rightarrow> nat option" where
  "digitValue base c =
     (let n = (of_char c :: nat);
          v = (if 48 \<le> n \<and> n \<le> 57 then Some (n - 48)
               else if 97 \<le> n \<and> n \<le> 102 then Some (n - 87)
               else if 65 \<le> n \<and> n \<le> 70 then Some (n - 55)
               else None)
      in case v of None \<Rightarrow> None | Some d \<Rightarrow> if d < base then Some d else None)"

fun digitsValue :: "nat \<Rightarrow> nat \<Rightarrow> string \<Rightarrow> nat option" where
  "digitsValue base acc [] = Some acc"
| "digitsValue base acc (c # cs) =
     (case digitValue base c of
        None \<Rightarrow> None
      | Some d \<Rightarrow> digitsValue base (acc * base + d) cs)"

text \<open>A non-empty run of digits of the base.\<close>

definition integerLiteral :: "nat \<Rightarrow> string \<Rightarrow> nat option" where
  "integerLiteral base ds = (if ds = [] then None else digitsValue base 0 ds)"

definition nonDecimalIntegerLiteral :: "string \<Rightarrow> nat option" where
  "nonDecimalIntegerLiteral t =
     (case t of
        c0 # c1 # ds \<Rightarrow>
          if c0 \<noteq> CHR ''0'' then None
          else if c1 = CHR ''x'' \<or> c1 = CHR ''X'' then integerLiteral 16 ds
          else if c1 = CHR ''o'' \<or> c1 = CHR ''O'' then integerLiteral 8 ds
          else if c1 = CHR ''b'' \<or> c1 = CHR ''B'' then integerLiteral 2 ds
          else None
      | _ \<Rightarrow> None)"

definition signedInteger :: "string \<Rightarrow> int option" where
  "signedInteger s =
     (case s of
        [] \<Rightarrow> None
      | c # cs \<Rightarrow>
          if c = CHR ''+'' then map_option int (integerLiteral 10 cs)
          else if c = CHR ''-'' then map_option (\<lambda>n. - int n) (integerLiteral 10 cs)
          else map_option int (integerLiteral 10 s))"

definition exponentPart :: "string \<Rightarrow> int option" where
  "exponentPart s =
     (case s of
        [] \<Rightarrow> Some 0
      | c # cs \<Rightarrow> if c = CHR ''e'' \<or> c = CHR ''E'' then signedInteger cs else None)"

definition scale10 :: "real \<Rightarrow> int \<Rightarrow> real" where
  "scale10 r e = (if 0 \<le> e then r * 10 ^ nat e else r / 10 ^ nat (- e))"

definition strUnsignedDecimalLiteral :: "string \<Rightarrow> jsnum" where
  "strUnsignedDecimalLiteral u =
     (if u = ''Infinity'' then PosInf
      else
        let ip = takeWhile isDigit u;
            r1 = dropWhile isDigit u;
            hasDot = (r1 \<noteq> [] \<and> hd r1 = CHR ''.'');
            fp = (if hasDot then takeWhile isDigit (tl r1) else []);
            r2 = (if hasDot then dropWhile isDigit (tl r1) else r1)
        in if ip = [] \<and> fp = [] then NaN
           else
             (case (digitsValue 10 0 ip, digitsValue 10 0 fp, exponentPart r2) of
                (Some a, Some b, Some e) \<Rightarrow>
                  Fin (scale10 (real a + real b / 10 ^ length fp) e)
              | _ \<Rightarrow> NaN))"

definition strDecimalLiteral :: "string \<Rightarrow> jsnum" where
  "strDecimalLiteral t =
     (case t of
        [] \<Rightarrow> NaN
      | c # cs \<Rightarrow>
          if c = CHR ''+'' then strUnsignedDecimalLiteral cs
          else if c = CHR ''-'' then jneg (strUnsignedDecimalLiteral cs)
          else strUnsignedDecimalLiteral t)"

definition Number :: "string \<Rightarrow> jsnum" where
  "Number s =
     (let t = trim s in
      if t = [] then Fin 0
      else case nonDecimalIntegerLiteral t of
             Some n \<Rightarrow> Fin (real n)
           | None \<Rightarrow> strDecimalLiteral t)"

subsection \<open>The data model\<close>

text \<open>
  Modelled from the spec: the classes \<^verbatim>\<open>Control\<close>, \<^verbatim>\<open>EndPointControl\<close> and
  \<^verbatim>\<open>Spline\<close> of \<^verbatim>\<open>math/Path\<close> are not among the sources. A control is a point,
  an end point control adds a heading. A spline is built, as the parser does it, from a
  first end point, the list of the controls in between and a last end point;
  \<open>controls\<close> is the ordered list of all of them, and the accessors \<^verbatim>\<open>first\<close> and
  \<^verbatim>\<open>last\<close> are \<open>spline_first\<close> and \<open>spline_last\<close>.
\<close>

datatype Control =
    Control (cx: jsnum) (cy: jsnum)
  | EndPointControl (cx: jsnum) (cy: jsnum) (heading: jsnum)

datatype Spline =
  Spline (spline_first: Control) (spline_mid: "Control list") (spline_last: Control)

definition controls :: "Spline \<Rightarrow> Control list" where
  "controls s = spline_first s # spline_mid s @ [spline_last s]"

text \<open>
  The range of \<^verbatim>\<open>app/RangeSlider\<close>, without the labels of the two limits. The
  field \<open>from\<close> is \<open>range_from\<close> and \<open>to\<close> is \<open>range_to\<close>.
\<close>

record NumberRange =
  minLimit :: jsnum
  maxLimit :: jsnum
  step :: jsnum
  range_from :: jsnum
  range_to :: jsnum

text \<open>
  \<^verbatim>\<open>PathConfigImpl\<close>. Only \<open>speedLimit\<close> is kept: \<open>applicationRange\<close> is rewritten
  in the constructor by \<^verbatim>\<open>convertPathConfigPointDensity\<close>, which is not among the
  sources, and the codec never reads it.
\<close>

record PathConfig =
  speedLimit :: NumberRange

definition buildPathConfig :: PathConfig where
  "buildPathConfig =
     \<lparr>speedLimit = \<lparr>minLimit = Fin 0, maxLimit = Fin 127, step = Fin 1,
                     range_from = Fin 20, range_to = Fin 100\<rparr>\<rparr>"

text \<open>
  Modelled from the spec: the class \<^verbatim>\<open>Path\<close> of \<^verbatim>\<open>math/Path\<close> is not among the
  sources. A path is a path configuration \<open>pc\<close> and a list of splines, and a new path
  holds the one spline it is built from.
\<close>

record Path =
  pc :: PathConfig
  splines :: "Spline list"

definition new_Path :: "PathConfig \<Rightarrow> Spline \<Rightarrow> Path" where
  "new_Path c s = \<lparr>pc = c, splines = [s]\<rparr>"

text \<open>
  Modelled from the spec: \<^verbatim>\<open>clamp\<close> of \<^verbatim>\<open>app/Util\<close> is not among the sources. The
  value is clamped into \<open>[lo, hi]\<close>, the way the earlier version of
  \<^verbatim>\<open>recoverPathFileData\<close> in the sources writes it out with \<^verbatim>\<open>Math.max\<close> and
  \<^verbatim>\<open>Math.min\<close>.
\<close>

definition clamp :: "jsnum \<Rightarrow> jsnum \<Rightarrow> jsnum \<Rightarrow> jsnum" where
  "clamp v lo hi = Math_max (Math_min v hi) lo"

subsection \<open>The parser \<^verbatim>\<open>recoverPathFileData\<close>\<close>

text \<open>
  The three \<^verbatim>\<open>throw\<close> statements of the parser, by their messages:
  \<^item> \<open>MissingSentinel\<close>: "Invalid file format, unable to find line 'endData'";
  \<^item> \<open>InvalidMaxSpeed\<close>: "Invalid file format, unable to parse max speed";
  \<^item> \<open>MalformedSplineLine n\<close>: "Invalid file format, unable to parse spline at line n".

  \<open>TypeError\<close> is the error of reading a property of \<^verbatim>\<open>undefined\<close>;
  \<open>NoPath\<close> and \<open>NoSpline\<close> are the two errors of the serialiser.
\<close>

datatype error =
    MissingSentinel
  | InvalidMaxSpeed
  | MalformedSplineLine nat
  | TypeError
  | NoPath
  | NoSpline

definition err_bind :: "error + 'a \<Rightarrow> ('a \<Rightarrow> error + 'b) \<Rightarrow> error + 'b" where
  "err_bind r f = (case r of Inl e \<Rightarrow> Inl e | Inr v \<Rightarrow> f v)"

text \<open>
  The closure \<^verbatim>\<open>error\<close> throws with the line number \<open>i + 1\<close>, where \<open>i\<close> is the
  current value of the loop variable; the closures \<^verbatim>\<open>num\<close> and \<^verbatim>\<open>push\<close> call
  it, so they take \<open>i\<close> as an argument.
\<close>

definition num :: "nat \<Rightarrow> string \<Rightarrow> error + jsnum" where
  "num i str =
     (let n = Number str in
      if isNaN n then Inl (MalformedSplineLine (i + 1)) else Inr (toFixed3 n))"

definition push :: "nat \<Rightarrow> jsnum \<Rightarrow> Spline \<Rightarrow> Path list \<Rightarrow> error + Path list" where
  "push i maxSpeed spline paths =
     (if length paths = 0 then
        let path = new_Path buildPathConfig spline;
            limit = speedLimit (pc path);
            path' = path\<lparr>pc := (pc path)\<lparr>speedLimit :=
                      limit\<lparr>range_to :=
                        clamp (toFixed3 maxSpeed) (minLimit limit) (maxLimit limit)\<rparr>\<rparr>\<rparr>
        in Inr (paths @ [path'])
      else
        let path = last paths in
        case splines path of
          [] \<Rightarrow> Inl TypeError
        | _ # _ \<Rightarrow>
            let lastSpline = last (splines path);
                a = spline_last lastSpline;
                b = spline_first spline
            in if \<not> strictEq (cx a) (cx b) \<or> \<not> strictEq (cy a) (cy b)
               then Inl (MalformedSplineLine (i + 1))
               else Inr (butlast paths @ [path\<lparr>splines := splines path @ [spline]\<rparr>]))"

text \<open>The body of the loop up to the call of \<^verbatim>\<open>push\<close>: one line to one spline.\<close>

definition parseSpline :: "nat \<Rightarrow> string \<Rightarrow> error + Spline" where
  "parseSpline i line =
     (let tokens = js_split '', '' line in
      if length tokens \<noteq> 8 then Inl (MalformedSplineLine (i + 1))
      else
        err_bind (num i (tokens ! 0)) (\<lambda>x1.
        err_bind (num i (tokens ! 1)) (\<lambda>y1.
        err_bind (num i (tokens ! 2)) (\<lambda>x2.
        err_bind (num i (tokens ! 3)) (\<lambda>y2.
        err_bind (num i (tokens ! 4)) (\<lambda>x3.
        err_bind (num i (tokens ! 5)) (\<lambda>y3.
        err_bind (num i (tokens ! 6)) (\<lambda>x4.
        err_bind (num i (tokens ! 7)) (\<lambda>y4.
          Inr (Spline (EndPointControl x1 y1 (Fin 0))
                      [Control x2 y2, Control x3 y3]
                      (EndPointControl x4 y4 (Fin 0))))))))))))"

text \<open>The loop \<^verbatim>\<open>while (i < lines.length - 1)\<close>; \<open>lines\<close> is never empty.\<close>

function loop :: "string list \<Rightarrow> jsnum \<Rightarrow> nat \<Rightarrow> Path list \<Rightarrow> error + Path list" where
  "loop lines maxSpeed i paths =
     (if i < length lines - 1 then
        (case parseSpline i (lines ! i) of
           Inl e \<Rightarrow> Inl e
         | Inr spline \<Rightarrow>
             (case push i maxSpeed spline paths of
                Inl e \<Rightarrow> Inl e
              | Inr paths' \<Rightarrow> loop lines maxSpeed (i + 1) paths'))
      else Inr paths)"
  by pat_completeness auto
termination
  by (relation "measure (\<lambda>(lines, maxSpeed, i, paths). length lines - 1 - i)") auto

declare loop.simps [simp del]

text \<open>
  The result \<^verbatim>\<open>{ gc, paths }\<close> is modelled by \<open>paths\<close>: \<open>gc\<close> is the general
  configuration of the format, which the parser returns as it is. Reading
  \<^verbatim>\<open>lines[i + 2]\<close> past the end gives \<^verbatim>\<open>undefined\<close>, and \<^verbatim>\<open>Number(undefined)\<close>
  is \<open>NaN\<close>.
\<close>

definition recoverPathFileData :: "string \<Rightarrow> error + Path list" where
  "recoverPathFileData fileContent =
     (let lines = js_split ''\<newline>'' fileContent in
      case findIndex (\<lambda>line. line = ''endData'') lines of
        None \<Rightarrow> Inl MissingSentinel
      | Some i \<Rightarrow>
          let maxSpeed = (if i + 2 < length lines then Number (lines ! (i + 2)) else NaN)
          in if isNaN maxSpeed then Inl InvalidMaxSpeed
             else loop lines maxSpeed (i + 4) [])"

subsection \<open>Notions used to state the properties of the parser\<close>

text \<open>
  A line is well formed if it splits into eight tokens none of which converts to
  \<open>NaN\<close>; \<open>lineSpline\<close> is the spline the loop builds from such a line. Two splines
  join if the check of \<^verbatim>\<open>push\<close> passes. \<open>scan\<close> is the loop, run over the list of the
  lines that are left.
\<close>

definition wellFormedLine :: "string \<Rightarrow> bool" where
  "wellFormedLine line \<longleftrightarrow>
     (let tokens = js_split '', '' line in
      length tokens = 8 \<and> list_all (\<lambda>t. \<not> isNaN (Number t)) tokens)"




fun scan :: "nat \<Rightarrow> jsnum \<Rightarrow> string list \<Rightarrow> Path list \<Rightarrow> error + Path list" where
  "scan i maxSpeed [] paths = Inr paths"
| "scan i maxSpeed (l # ls) paths =
     (case parseSpline i l of
        Inl e \<Rightarrow> Inl e
      | Inr spline \<Rightarrow>
          (case push i maxSpeed spline paths of
             Inl e \<Rightarrow> Inl e
           | Inr paths' \<Rightarrow> scan (i + 1) maxSpeed ls paths'))"

subsection \<open>Vectors and units\<close>

text \<open>
  Modelled from the spec: the class \<^verbatim>\<open>Vector\<close> of \<^verbatim>\<open>math/Path\<close> is not among the
  sources. A vector is a pair of numbers; controls and sampled points are vectors.
  \<^verbatim>\<open>add\<close> adds by component and \<^verbatim>\<open>divide\<close> divides by component (the serialiser
  divides by \<^verbatim>\<open>new Vector(2, 2)\<close>); \<open>distance\<close> is the Euclidean distance;
  \<open>interpolate a b d\<close> is the point at distance \<open>d\<close> from \<open>a\<close> toward \<open>b\<close>, not
  necessarily between them.
\<close>

datatype Vector = Vector (vx: jsnum) (vy: jsnum)

definition vector_add :: "Vector \<Rightarrow> Vector \<Rightarrow> Vector" where
  "vector_add a b = Vector (jadd (vx a) (vx b)) (jadd (vy a) (vy b))"

definition vector_divide :: "Vector \<Rightarrow> Vector \<Rightarrow> Vector" where
  "vector_divide a b = Vector (jdiv (vx a) (vx b)) (jdiv (vy a) (vy b))"

definition distance :: "Vector \<Rightarrow> Vector \<Rightarrow> jsnum" where
  "distance a b =
     (let dx = jsub (vx b) (vx a); dy = jsub (vy b) (vy a)
      in Math_sqrt (jadd (jmul dx dx) (jmul dy dy)))"

definition interpolate :: "Vector \<Rightarrow> Vector \<Rightarrow> jsnum \<Rightarrow> Vector" where
  "interpolate a b d =
     (let t = jdiv d (distance a b)
      in Vector (jadd (vx a) (jmul (jsub (vx b) (vx a)) t))
                (jadd (vy a) (jmul (jsub (vy b) (vy a)) t)))"

definition control_vector :: "Control \<Rightarrow> Vector" where
  "control_vector c = Vector (cx c) (cy c)"

text \<open>
  Modelled from the spec: a sampled point of the point sampler
  \<^verbatim>\<open>calculatePoints\<close>, which is not among the sources, carries \<open>(x, y, speed)\<close>.
\<close>

datatype Point = Point (point_x: jsnum) (point_y: jsnum) (speed: jsnum)

definition point_vector :: "Point \<Rightarrow> Vector" where
  "point_vector p = Vector (point_x p) (point_y p)"

text \<open>
  Modelled from the spec: \<^verbatim>\<open>UnitOfLength\<close> and \<^verbatim>\<open>UnitConverter\<close> of \<^verbatim>\<open>math/Unit\<close>
  are not among the sources. A unit is given by its conversion factor, the length of
  the unit in inches. The converter of the units \<open>A\<close> and \<open>B\<close> converts linearly in
  both directions and rounds the result with \<open>fixPrecision\<close>, which rounds to three
  decimals and parses the result again.
\<close>

type_synonym UnitOfLength = real

definition Inch :: UnitOfLength where
  "Inch = 1"

definition Centimeter :: UnitOfLength where
  "Centimeter = 100 / 254"

datatype UnitConverter = UnitConverter (aUOL: UnitOfLength) (bUOL: UnitOfLength)

definition fixPrecision :: "UnitConverter \<Rightarrow> jsnum \<Rightarrow> jsnum" where
  "fixPrecision uc some = toFixed3 some"

definition fromAtoB :: "UnitConverter \<Rightarrow> jsnum \<Rightarrow> jsnum" where
  "fromAtoB uc a = fixPrecision uc (jdiv (jmul a (Fin (aUOL uc))) (Fin (bUOL uc)))"

definition fromBtoA :: "UnitConverter \<Rightarrow> jsnum \<Rightarrow> jsnum" where
  "fromBtoA uc b = fixPrecision uc (jdiv (jmul b (Fin (bUOL uc))) (Fin (aUOL uc)))"

subsection \<open>The serialiser \<^verbatim>\<open>exportPathFile\<close>\<close>

text \<open>
  What the serialiser reads of the application: the path of interest, if any, and the
  JSON text of \<^verbatim>\<open>app.exportPathFileData()\<close>.
\<close>

record MainApp =
  interestedPath :: "Path option"
  exportPathFileData :: string

text \<open>
  The conversion of a number to a string in a template literal is the parameter
  \<open>str\<close> of the serialiser: what JavaScript prints for a double has no counterpart on
  exact reals. The line of a sampled point:
\<close>

definition pointLine :: "(jsnum \<Rightarrow> string) \<Rightarrow> UnitConverter \<Rightarrow> Point \<Rightarrow> string" where
  "pointLine str uc point =
     str (fromAtoB uc (point_x point)) @ '', '' @ str (fromAtoB uc (point_y point)) @ '', '' @
     str (fixPrecision uc (speed point)) @ ''\<newline>''"

text \<open>The block \<^verbatim>\<open>if (points.length > 1)\<close>: the ghost point and its line.\<close>

definition ghostPoint :: "UnitConverter \<Rightarrow> Point list \<Rightarrow> Vector" where
  "ghostPoint uc points =
     (let last2 = point_vector (points ! (length points - 2));
          last1 = point_vector (points ! (length points - 1))
      in interpolate last2 last1 (jadd (distance last2 last1) (fromBtoA uc (Fin 20))))"

definition ghostLine :: "(jsnum \<Rightarrow> string) \<Rightarrow> UnitConverter \<Rightarrow> Point list \<Rightarrow> string" where
  "ghostLine str uc points =
     (if length points > 1 then
        str (fromAtoB uc (vx (ghostPoint uc points))) @ '', '' @
        str (fromAtoB uc (vy (ghostPoint uc points))) @ '', 0\<newline>''
      else [])"

text \<open>
  The local function \<^verbatim>\<open>output\<close>, which appends to the result; \<open>output\<close> is a
  keyword here.
\<close>

definition output_control :: "(jsnum \<Rightarrow> string) \<Rightarrow> UnitConverter \<Rightarrow> Vector \<Rightarrow> string \<Rightarrow> string" where
  "output_control str uc control postfix =
     str (fromAtoB uc (vx control)) @ '', '' @ str (fromAtoB uc (vy control)) @ postfix"

text \<open>The body of the loop over the splines.\<close>

definition splineLine :: "(jsnum \<Rightarrow> string) \<Rightarrow> UnitConverter \<Rightarrow> Spline \<Rightarrow> string" where
  "splineLine str uc spline =
     (let cs = map control_vector (controls spline) in
      if length cs = 4 then
        output_control str uc (cs ! 0) '', '' @ output_control str uc (cs ! 1) '', '' @
        output_control str uc (cs ! 2) '', '' @ output_control str uc (cs ! 3) ''\<newline>''
      else if length cs = 2 then
        let center = vector_divide (vector_add (cs ! 0) (cs ! 1)) (Vector (Fin 2) (Fin 2))
        in output_control str uc (cs ! 0) '', '' @ output_control str uc center '', '' @
           output_control str uc center '', '' @ output_control str uc (cs ! 1) ''\<newline>''
      else [])"

text \<open>
  \<open>uol\<close> is the unit of the general configuration of the format, and
  \<open>calculatePoints\<close> stands for \<^verbatim>\<open>path.calculatePoints(this.gc).points\<close>, the point
  sampler.
\<close>

definition exportPathFile ::
  "(jsnum \<Rightarrow> string) \<Rightarrow> UnitOfLength \<Rightarrow> (Path \<Rightarrow> Point list) \<Rightarrow> MainApp \<Rightarrow> error + string" where
  "exportPathFile str uol calculatePoints app =
     (case interestedPath app of
        None \<Rightarrow> Inl NoPath
      | Some path \<Rightarrow>
          if length (splines path) = 0 then Inl NoSpline
          else
            let uc = UnitConverter uol Inch;
                points = calculatePoints path
            in Inr (concat (map (pointLine str uc) points) @
                    ghostLine str uc points @
                    ''endData\<newline>'' @
                    ''200\<newline>'' @
                    str (range_to (speedLimit (pc path))) @ ''\<newline>'' @
                    ''200\<newline>'' @
                    concat (map (splineLine str uc) (splines path)) @
                    ''#PATH.JERRYIO-DATA '' @ exportPathFileData app))"

subsection \<open>A printer of numbers\<close>

text \<open>
  \<open>Number_toString\<close> prints a number the way JavaScript does when the number has at
  most three decimals and a magnitude below \<open>10\<^sup>2\<^sup>1\<close>: in decimal notation,
  without an exponent and without trailing zeros. The serialiser passes every
  coordinate and speed through \<open>fixPrecision\<close> first, so these are the finite values
  it prints. On other finite values the printer rounds to three decimals; it is used
  for the examples only.
\<close>

definition digitChar :: "int \<Rightarrow> char" where
  "digitChar d =
     (if d = 0 then CHR ''0'' else if d = 1 then CHR ''1'' else if d = 2 then CHR ''2''
      else if d = 3 then CHR ''3'' else if d = 4 then CHR ''4'' else if d = 5 then CHR ''5''
      else if d = 6 then CHR ''6'' else if d = 7 then CHR ''7'' else if d = 8 then CHR ''8''
      else CHR ''9'')"

function intString :: "int \<Rightarrow> string" where
  "intString n = (if n < 10 then [digitChar n] else intString (n div 10) @ [digitChar (n mod 10)])"
  by pat_completeness auto
termination
  by (relation "measure nat") auto

declare intString.simps [simp del]

definition fractionString :: "int \<Rightarrow> string" where
  "fractionString m =
     (if m mod 1000 = 0 then []
      else if m mod 100 = 0 then [CHR ''.'', digitChar (m div 100 mod 10)]
      else if m mod 10 = 0 then [CHR ''.'', digitChar (m div 100 mod 10), digitChar (m div 10 mod 10)]
      else [CHR ''.'', digitChar (m div 100 mod 10), digitChar (m div 10 mod 10),
            digitChar (m mod 10)])"

fun Number_toString :: "jsnum \<Rightarrow> string" where
  "Number_toString NaN = ''NaN''"
| "Number_toString PosInf = ''Infinity''"
| "Number_toString NegInf = ''-Infinity''"
| "Number_toString (Fin r) =
     (let m = \<lfloor>\<bar>r\<bar> * 1000 + 1 / 2\<rfloor>
      in (if r < 0 \<and> m \<noteq> 0 then ''-'' else []) @ intString (m div 1000) @ fractionString m)"

subsection \<open>The result of the parser\<close>

text \<open>
  The path configuration of a recovered path, and the result of a scan that succeeds.
\<close>

definition pathConfigOf :: "jsnum \<Rightarrow> PathConfig" where
  "pathConfigOf maxSpeed =
     \<lparr>speedLimit = \<lparr>minLimit = Fin 0, maxLimit = Fin 127, step = Fin 1,
                     range_from = Fin 20,
                     range_to = clamp (toFixed3 maxSpeed) (Fin 0) (Fin 127)\<rparr>\<rparr>"


subsection \<open>Notions used to state the round trip\<close>








subsection \<open>Example files\<close>


definition example_nine_tokens :: string where
  "example_nine_tokens =
     ''1, 1, 50\<newline>endData\<newline>200\<newline>100\<newline>200\<newline>0, 0, 1, 1, 2, 2, 3, 3\<newline>3, 3, 4, 4, 5, 5, 6, 6, 7\<newline>#PATH.JERRYIO-DATA {}''"




definition example_no_splines :: string where
  "example_no_splines = ''1, 1, 50\<newline>endData\<newline>200\<newline>100\<newline>200\<newline>''"

definition example_unterminated :: string where
  "example_unterminated = ''endData\<newline>200\<newline>100\<newline>200\<newline>0, 0, 1, 1, 2, 2, 3, 3''"

text \<open>Paths, applications and sampled points for the examples of the serialiser.\<close>

definition example_path :: Path where
  "example_path =
     \<lparr>pc = buildPathConfig,
      splines = [Spline (EndPointControl (Fin 0) (Fin 0) (Fin 0)) []
                        (EndPointControl (Fin 10) (Fin 0) (Fin 0))]\<rparr>"

definition example_app :: MainApp where
  "example_app = \<lparr>interestedPath = Some example_path, exportPathFileData = ''{}''\<rparr>"

definition example_path_14 :: Path where
  "example_path_14 =
     \<lparr>pc = buildPathConfig,
      splines = [Spline (EndPointControl (Fin 0) (Fin 0) (Fin 0)) []
                        (EndPointControl (Fin 14) (Fin 0) (Fin 0))]\<rparr>"

definition example_app_14 :: MainApp where
  "example_app_14 = \<lparr>interestedPath = Some example_path_14, exportPathFileData = ''{}''\<rparr>"

definition example_points_14 :: "Point list" where
  "example_points_14 = [Point (Fin 0) (Fin 0) (Fin 50), Point (Fin 10) (Fin 0) (Fin 50),
                        Point (Fin 14) (Fin 0) (Fin 0)]"




definition example_path_cm :: Path where
  "example_path_cm =
     \<lparr>pc = buildPathConfig,
      splines = [Spline (EndPointControl (Fin 0) (Fin 0) (Fin 0)) []
                        (EndPointControl (Fin 25.4) (Fin 0) (Fin 0))]\<rparr>"

definition example_app_cm :: MainApp where
  "example_app_cm = \<lparr>interestedPath = Some example_path_cm, exportPathFileData = ''{}''\<rparr>"

definition example_points_cm :: "Point list" where
  "example_points_cm = [Point (Fin 0) (Fin 0) (Fin 50), Point (Fin 10.16) (Fin 0) (Fin 60),
                        Point (Fin 25.4) (Fin 0) (Fin 0)]"

definition example_bad_token :: string where
  "example_bad_token =
     ''1, 1, 50\<newline>endData\<newline>200\<newline>100\<newline>200\<newline>0, 0, 1, 1, 2, 2, 3, 3\<newline>3, 3, 4, x, 5, 5, 6, 6\<newline>#PATH.JERRYIO-DATA {}''"

section \<open>Properties of the parser\<close>

subsection \<open>The loop\<close>



lemma loop_scan: "loop lines maxSpeed i paths = scan i maxSpeed (drop i (butlast lines)) paths"
proof (induction lines maxSpeed i paths rule: loop.induct)
  case (1 lines maxSpeed i paths)
  show ?case
  proof (cases "i < length lines - 1")
    case False
    then show ?thesis by (subst loop.simps) simp
  next
    case True
    then have "i < length (butlast lines)" by simp
    then have "drop i (butlast lines) = butlast lines ! i # drop (Suc i) (butlast lines)"
      by (rule Cons_nth_drop_Suc [symmetric])
    with True have d: "drop i (butlast lines) = lines ! i # drop (i + 1) (butlast lines)"
      by (simp add: nth_butlast)
    show ?thesis
      using True 1 by (subst loop.simps) (simp add: d split: sum.splits)
  qed
qed

lemma findIndex_None: "findIndex p xs = None \<longleftrightarrow> (\<forall>x \<in> set xs. \<not> p x)"
  by (induction xs) auto

lemma findIndex_append:
  "findIndex p xs = Some i \<Longrightarrow> findIndex p (xs @ ys) = Some i"
  by (induction xs arbitrary: i) (auto split: if_splits)















lemma decode_scan:
  assumes "findIndex (\<lambda>line. line = ''endData'') (js_split ''\<newline>'' fileContent) = Some s"
    and "s + 2 < length (js_split ''\<newline>'' fileContent)"
    and "\<not> isNaN (Number (js_split ''\<newline>'' fileContent ! (s + 2)))"
  shows "recoverPathFileData fileContent =
           scan (s + 4) (Number (js_split ''\<newline>'' fileContent ! (s + 2)))
             (drop (s + 4) (butlast (js_split ''\<newline>'' fileContent))) []"
  using assms by (simp add: recoverPathFileData_def loop_scan Let_def)

subsection \<open>The sentinel\<close>

text \<open>
  Claim C8. A text none of whose lines is exactly \<open>endData\<close> makes the parser fail
  with \<open>MissingSentinel\<close>; no list of paths, partial or not, is returned.
\<close>

theorem decode_missing_sentinel:
  assumes "''endData'' \<notin> set (js_split ''\<newline>'' fileContent)"
  shows "recoverPathFileData fileContent = Inl MissingSentinel \<and>
         (\<forall>paths. recoverPathFileData fileContent \<noteq> Inr paths)"
proof -
  have "findIndex (\<lambda>line. line = ''endData'') (js_split ''\<newline>'' fileContent) = None"
    using assms by (auto simp: findIndex_None)
  then show ?thesis by (simp add: recoverPathFileData_def)
qed

theorem decode_missing_sentinel_witness:
  "''endData'' \<notin> set (js_split ''\<newline>'' ''200\<newline>100\<newline>200\<newline>0, 0, 1, 1, 2, 2, 3, 3\<newline>'') \<and>
   recoverPathFileData ''200\<newline>100\<newline>200\<newline>0, 0, 1, 1, 2, 2, 3, 3\<newline>'' = Inl MissingSentinel"
proof -
  have h: "''endData'' \<notin> set (js_split ''\<newline>'' ''200\<newline>100\<newline>200\<newline>0, 0, 1, 1, 2, 2, 3, 3\<newline>'')"
    by code_simp
  show ?thesis using h decode_missing_sentinel [OF h] by simp
qed

subsection \<open>The maximum speed\<close>



text \<open>
  A line that is no number, a missing line and the empty line: the first two give
  \<open>InvalidMaxSpeed\<close>, and the empty line converts to \<open>0\<close>.
\<close>

lemma decode_max_speed_examples:
  "recoverPathFileData ''endData\<newline>200\<newline>fast\<newline>200\<newline>0, 0, 1, 1, 2, 2, 3, 3\<newline>'' =
     Inl InvalidMaxSpeed \<and>
   recoverPathFileData ''endData\<newline>200'' = Inl InvalidMaxSpeed \<and>
   recoverPathFileData ''endData\<newline>200\<newline>\<newline>200\<newline>0, 0, 1, 1, 2, 2, 3, 3\<newline>'' =
     Inr [\<lparr>pc = \<lparr>speedLimit = \<lparr>minLimit = Fin 0, maxLimit = Fin 127, step = Fin 1,
                               range_from = Fin 20, range_to = Fin 0\<rparr>\<rparr>,
           splines = [Spline (EndPointControl (Fin 0) (Fin 0) (Fin 0))
                        [Control (Fin 1) (Fin 1), Control (Fin 2) (Fin 2)]
                        (EndPointControl (Fin 3) (Fin 3) (Fin 0))]\<rparr>]"
  by code_simp


subsection \<open>Malformed spline lines\<close>



lemma decode_nine_tokens:
  "length (js_split '', '' (js_split ''\<newline>'' example_nine_tokens ! 6)) = 9 \<and>
   recoverPathFileData example_nine_tokens = Inl (MalformedSplineLine 7)"
  by code_simp

text \<open>A line of eight tokens one of which is no number.\<close>

lemma decode_bad_token:
  "js_split '', '' (js_split ''\<newline>'' example_bad_token ! 6) =
     [''3'', ''3'', ''4'', ''x'', ''5'', ''5'', ''6'', ''6''] \<and>
   Number ''x'' = NaN \<and>
   recoverPathFileData example_bad_token = Inl (MalformedSplineLine 7)"
  by code_simp

subsection \<open>Discontinuous spline lines\<close>




subsection \<open>A file without spline lines\<close>

text \<open>
  Claim C9. If the sentinel is at line \<open>s\<close>, line \<open>s + 2\<close> converts to a number and
  there is no line from \<open>s + 4\<close> up to the second to last, the parser succeeds with the
  empty list of paths: no path is built and no error is raised.
\<close>

theorem decode_no_spline_lines:
  fixes fileContent :: string
  defines "lines \<equiv> js_split ''\<newline>'' fileContent"
  assumes "findIndex (\<lambda>line. line = ''endData'') lines = Some s"
    and "s + 2 < length lines"
    and "\<not> isNaN (Number (lines ! (s + 2)))"
    and "length lines - 1 \<le> s + 4"
  shows "recoverPathFileData fileContent = Inr []"
proof -
  have "drop (s + 4) (butlast lines) = []"
    using assms(5) by simp
  then show ?thesis
    using decode_scan [of fileContent s] assms(2-4) by (simp add: lines_def)
qed

theorem decode_no_spline_lines_witness:
  "findIndex (\<lambda>line. line = ''endData'') (js_split ''\<newline>'' example_no_splines) = Some 1 \<and>
   1 + 2 < length (js_split ''\<newline>'' example_no_splines) \<and>
   \<not> isNaN (Number (js_split ''\<newline>'' example_no_splines ! (1 + 2))) \<and>
   length (js_split ''\<newline>'' example_no_splines) - 1 \<le> 1 + 4 \<and>
   recoverPathFileData example_no_splines = Inr []"
proof -
  let ?lines = "js_split ''\<newline>'' example_no_splines"
  have h1: "findIndex (\<lambda>line. line = ''endData'') ?lines = Some 1" by code_simp
  have h2: "1 + 2 < length ?lines" by code_simp
  have h3: "\<not> isNaN (Number (?lines ! (1 + 2)))" by code_simp
  have h4: "length ?lines - 1 \<le> 1 + 4" by code_simp
  show ?thesis
    by (intro conjI h1 h2 h3 h4 decode_no_spline_lines [OF h1 h2 h3 h4])
qed

subsection \<open>The last line\<close>

lemma split_from_no_sep:
  "c \<notin> set s \<Longrightarrow> split_from [c] acc s = [rev acc @ s]"
  by (induction s arbitrary: acc) auto

lemma split_from_last:
  "c \<notin> set t \<Longrightarrow> split_from [c] acc (p @ c # t) = split_from [c] acc p @ [t]"
proof (induction p arbitrary: acc)
  case Nil
  then show ?case by (simp add: split_from_no_sep)
next
  case (Cons x p)
  show ?case
  proof (cases "x = c")
    case True
    then show ?thesis using Cons.IH [OF Cons.prems, of "[]"] by simp
  next
    case False
    then show ?thesis using Cons.IH [OF Cons.prems, of "x # acc"] by simp
  qed
qed

lemma js_split_last:
  "c \<notin> set t \<Longrightarrow> js_split [c] (p @ c # t) = js_split [c] p @ [t]"
  by (simp add: js_split_def split_from_last)

lemma decode_last_line:
  assumes "CHR ''\<newline>'' \<notin> set t"
    and "findIndex (\<lambda>line. line = ''endData'') (js_split ''\<newline>'' p) = Some s"
    and "s + 2 < length (js_split ''\<newline>'' p)"
  shows "recoverPathFileData (p @ ''\<newline>'' @ t) =
           (let lines = js_split ''\<newline>'' p; maxSpeed = Number (lines ! (s + 2))
            in if isNaN maxSpeed then Inl InvalidMaxSpeed
               else scan (s + 4) maxSpeed (drop (s + 4) lines) [])"
proof -
  let ?L = "js_split ''\<newline>'' p"
  have l: "js_split ''\<newline>'' (p @ ''\<newline>'' @ t) = ?L @ [t]"
    using assms(1) by (simp add: js_split_last)
  have f: "findIndex (\<lambda>line. line = ''endData'') (?L @ [t]) = Some s"
    using assms(2) by (rule findIndex_append)
  show ?thesis
    unfolding recoverPathFileData_def l
    using assms(3) by (simp add: f nth_append Let_def loop_scan)
qed

text \<open>
  Claim C10. The parser never reads the last line. Two texts that agree up to and
  including their last line feed, with the sentinel and the line of the maximum speed
  before it, have the same result; so a last line without a line feed is dropped,
  whatever it holds.
\<close>

theorem decode_ignores_last_line:
  assumes "CHR ''\<newline>'' \<notin> set t1" and "CHR ''\<newline>'' \<notin> set t2"
    and "findIndex (\<lambda>line. line = ''endData'') (js_split ''\<newline>'' p) = Some s"
    and "s + 2 < length (js_split ''\<newline>'' p)"
  shows "recoverPathFileData (p @ ''\<newline>'' @ t1) = recoverPathFileData (p @ ''\<newline>'' @ t2)"
proof -
  let ?result = "let lines = js_split ''\<newline>'' p; maxSpeed = Number (lines ! (s + 2))
                 in if isNaN maxSpeed then Inl InvalidMaxSpeed
                    else scan (s + 4) maxSpeed (drop (s + 4) lines) []"
  have "recoverPathFileData (p @ ''\<newline>'' @ t1) = ?result"
    by (rule decode_last_line [OF assms(1,3,4)])
  moreover have "recoverPathFileData (p @ ''\<newline>'' @ t2) = ?result"
    by (rule decode_last_line [OF assms(2,3,4)])
  ultimately show ?thesis by simp
qed

text \<open>
  A well formed spline line as last line, without a line feed: the result is the one
  path of the one spline line before it.
\<close>

theorem decode_ignores_last_line_witness:
  "CHR ''\<newline>'' \<notin> set ''3, 3, 4, 4, 5, 5, 6, 6'' \<and>
   CHR ''\<newline>'' \<notin> set ([] :: string) \<and>
   findIndex (\<lambda>line. line = ''endData'') (js_split ''\<newline>'' example_unterminated) = Some 0 \<and>
   0 + 2 < length (js_split ''\<newline>'' example_unterminated) \<and>
   wellFormedLine ''3, 3, 4, 4, 5, 5, 6, 6'' \<and>
   recoverPathFileData (example_unterminated @ ''\<newline>'' @ ''3, 3, 4, 4, 5, 5, 6, 6'') =
     recoverPathFileData (example_unterminated @ ''\<newline>'' @ []) \<and>
   recoverPathFileData (example_unterminated @ ''\<newline>'' @ []) =
     Inr [\<lparr>pc = pathConfigOf (Fin 100),
           splines = [Spline (EndPointControl (Fin 0) (Fin 0) (Fin 0))
                        [Control (Fin 1) (Fin 1), Control (Fin 2) (Fin 2)]
                        (EndPointControl (Fin 3) (Fin 3) (Fin 0))]\<rparr>]"
proof -
  have h1: "CHR ''\<newline>'' \<notin> set ''3, 3, 4, 4, 5, 5, 6, 6''" by simp
  have h2: "CHR ''\<newline>'' \<notin> set ([] :: string)" by simp
  have h3: "findIndex (\<lambda>line. line = ''endData'') (js_split ''\<newline>'' example_unterminated) = Some 0"
    by code_simp
  have h4: "0 + 2 < length (js_split ''\<newline>'' example_unterminated)" by code_simp
  have h5: "wellFormedLine ''3, 3, 4, 4, 5, 5, 6, 6''" by code_simp
  have r: "recoverPathFileData (example_unterminated @ ''\<newline>'' @ []) =
     Inr [\<lparr>pc = pathConfigOf (Fin 100),
           splines = [Spline (EndPointControl (Fin 0) (Fin 0) (Fin 0))
                        [Control (Fin 1) (Fin 1), Control (Fin 2) (Fin 2)]
                        (EndPointControl (Fin 3) (Fin 3) (Fin 0))]\<rparr>]"
    by code_simp
  show ?thesis
    by (intro conjI h1 h2 h3 h4 h5 r decode_ignores_last_line [OF h1 h2 h3 h4])
qed

section \<open>Properties of the serialiser\<close>

subsection \<open>The text\<close>

lemma exportPathFile_text:
  assumes "interestedPath app = Some path" and "splines path \<noteq> []"
  shows "exportPathFile str uol calculatePoints app =
           Inr (concat (map (pointLine str (UnitConverter uol Inch)) (calculatePoints path)) @
                ghostLine str (UnitConverter uol Inch) (calculatePoints path) @
                ''endData\<newline>200\<newline>'' @ str (range_to (speedLimit (pc path))) @ ''\<newline>200\<newline>'' @
                concat (map (splineLine str (UnitConverter uol Inch)) (splines path)) @
                ''#PATH.JERRYIO-DATA '' @ exportPathFileData app)"
  using assms by (simp add: exportPathFile_def Let_def)

lemma last_two:
  "length points > 1 \<Longrightarrow> points ! (length points - 2) = last (butlast points)"
  "length points > 1 \<Longrightarrow> points ! (length points - 1) = last points"
  "length points > 1 \<Longrightarrow> points ! (length points - Suc 0) = last points"
  by (simp_all add: last_conv_nth nth_butlast numeral_2_eq_2 flip: length_greater_0_conv)

lemma sqrt_cm: "sqrt (145161 / 625) = 381 / 25"
  by (rule real_sqrt_unique) (simp_all add: power2_eq_square)

lemma sqrt_16: "sqrt 16 = 4"
  by (rule real_sqrt_unique) simp_all

subsection \<open>The ghost point\<close>

text \<open>
  Claim C3. With more than one sampled point the serialiser emits, after the lines of
  the points and before the sentinel, exactly one line: the point
  \<open>last2.interpolate(last1, distance(last2, last1) + c)\<close>, converted to inches, with
  the speed \<open>0\<close>; \<open>last2\<close> and \<open>last1\<close> are the second to last and the last sampled
  point and \<open>c\<close> is \<^verbatim>\<open>uc.fromBtoA(20)\<close>, the 20 inches in the unit of the path. With
  no point or one point there is no such line.
\<close>

theorem export_ghost_line:
  fixes str :: "jsnum \<Rightarrow> string" and uol :: UnitOfLength
    and calculatePoints :: "Path \<Rightarrow> Point list" and app :: MainApp and path :: Path
  assumes "interestedPath app = Some path" and "splines path \<noteq> []"
  defines "uc \<equiv> UnitConverter uol Inch"
  defines "points \<equiv> calculatePoints path"
  defines "last2 \<equiv> point_vector (last (butlast points))"
  defines "last1 \<equiv> point_vector (last points)"
  defines "c \<equiv> fromBtoA uc (Fin 20)"
  defines "ghost \<equiv> interpolate last2 last1 (jadd (distance last2 last1) c)"
  shows "exportPathFile str uol calculatePoints app =
           Inr (concat (map (pointLine str uc) points) @
                (if length points > 1
                 then str (fromAtoB uc (vx ghost)) @ '', '' @ str (fromAtoB uc (vy ghost)) @
                      '', 0\<newline>''
                 else []) @
                ''endData\<newline>200\<newline>'' @ str (range_to (speedLimit (pc path))) @ ''\<newline>200\<newline>'' @
                concat (map (splineLine str uc) (splines path)) @
                ''#PATH.JERRYIO-DATA '' @ exportPathFileData app)"
proof -
  have "ghostLine str uc points =
          (if length points > 1
           then str (fromAtoB uc (vx ghost)) @ '', '' @ str (fromAtoB uc (vy ghost)) @ '', 0\<newline>''
           else [])"
    by (simp add: ghostLine_def ghostPoint_def last_two Let_def ghost_def last2_def last1_def c_def)
  then show ?thesis
    using exportPathFile_text [OF assms(1,2), of str uol calculatePoints]
    by (simp add: uc_def points_def)
qed

text \<open>
  With the converter of the spec, \<open>c\<close> is \<open>20 / uol\<close> rounded to three decimals, where
  \<open>uol\<close> is the length of the unit of the path in inches.
\<close>

lemma fromBtoA_20:
  "0 < uol \<Longrightarrow> fromBtoA (UnitConverter uol Inch) (Fin 20) = toFixed3 (Fin (20 / uol))"
  by (simp add: fromBtoA_def fixPrecision_def Inch_def)

lemma fromBtoA_20_Centimeter: "fromBtoA (UnitConverter Centimeter Inch) (Fin 20) = Fin 50.8"
  by code_simp

text \<open>
  In the example the unit is the centimeter: \<open>c\<close> is \<open>50.8\<close>, the last two of the three
  sampled points are \<open>(10.16, 0)\<close> and \<open>(25.4, 0)\<close>, and the ghost point is
  \<open>(76.2, 0)\<close>, which is \<open>(30, 0)\<close> in inches.
\<close>

theorem export_ghost_line_witness:
  "interestedPath example_app_cm = Some example_path_cm \<and>
   splines example_path_cm \<noteq> [] \<and>
   fromBtoA (UnitConverter Centimeter Inch) (Fin 20) = Fin 50.8 \<and>
   interpolate (point_vector (last (butlast example_points_cm)))
     (point_vector (last example_points_cm))
     (jadd (distance (point_vector (last (butlast example_points_cm)))
                     (point_vector (last example_points_cm)))
           (fromBtoA (UnitConverter Centimeter Inch) (Fin 20))) = Vector (Fin 76.2) (Fin 0) \<and>
   exportPathFile Number_toString Centimeter (\<lambda>path. example_points_cm) example_app_cm =
     Inr ''0, 0, 50\<newline>4, 0, 60\<newline>10, 0, 0\<newline>30, 0, 0\<newline>endData\<newline>200\<newline>100\<newline>200\<newline>0, 0, 5, 0, 5, 0, 10, 0\<newline>#PATH.JERRYIO-DATA {}''"
proof -
  let ?uc = "UnitConverter Centimeter Inch"
  have h1: "interestedPath example_app_cm = Some example_path_cm"
    by (simp add: example_app_cm_def)
  have h2: "splines example_path_cm \<noteq> []"
    by (simp add: example_path_cm_def)
  have c: "fromBtoA ?uc (Fin 20) = Fin 50.8"
    by (rule fromBtoA_20_Centimeter)
  have g: "interpolate (point_vector (last (butlast example_points_cm)))
             (point_vector (last example_points_cm))
             (jadd (distance (point_vector (last (butlast example_points_cm)))
                             (point_vector (last example_points_cm)))
                   (fromBtoA ?uc (Fin 20))) = Vector (Fin 76.2) (Fin 0)"
    unfolding c
    by (simp add: example_points_cm_def interpolate_def distance_def point_vector_def jsub_def
        sqrt_cm)
  have e: "concat (map (pointLine Number_toString ?uc) example_points_cm) @
           (if length example_points_cm > 1
            then Number_toString (fromAtoB ?uc (vx (Vector (Fin 76.2) (Fin 0)))) @
                 '', '' @
                 Number_toString (fromAtoB ?uc (vy (Vector (Fin 76.2) (Fin 0)))) @
                 '', 0\<newline>''
            else []) @
           ''endData\<newline>200\<newline>'' @
           Number_toString (range_to (speedLimit (pc example_path_cm))) @ ''\<newline>200\<newline>'' @
           concat (map (splineLine Number_toString ?uc) (splines example_path_cm)) @
           ''#PATH.JERRYIO-DATA '' @ exportPathFileData example_app_cm =
           ''0, 0, 50\<newline>4, 0, 60\<newline>10, 0, 0\<newline>30, 0, 0\<newline>endData\<newline>200\<newline>100\<newline>200\<newline>0, 0, 5, 0, 5, 0, 10, 0\<newline>#PATH.JERRYIO-DATA {}''"
    by code_simp
  have "exportPathFile Number_toString Centimeter (\<lambda>path. example_points_cm) example_app_cm =
     Inr ''0, 0, 50\<newline>4, 0, 60\<newline>10, 0, 0\<newline>30, 0, 0\<newline>endData\<newline>200\<newline>100\<newline>200\<newline>0, 0, 5, 0, 5, 0, 10, 0\<newline>#PATH.JERRYIO-DATA {}''"
    using export_ghost_line [OF h1 h2, where str = Number_toString and uol = Centimeter
        and calculatePoints = "\<lambda>path. example_points_cm"]
    by (simp only: g e)
  with h1 h2 c g show ?thesis by (intro conjI)
qed

lemma ghostLine_10_14:
  "ghostLine str (UnitConverter Inch Inch)
     (before @ [Point (Fin 10) (Fin 0) s2, Point (Fin 14) (Fin 0) s1]) =
   str (Fin 34) @ '', '' @ str (Fin 0) @ '', 0\<newline>''"
proof -
  have "ghostPoint (UnitConverter Inch Inch)
          (before @ [Point (Fin 10) (Fin 0) s2, Point (Fin 14) (Fin 0) s1]) =
        Vector (Fin 34) (Fin 0)"
    by (simp add: ghostPoint_def interpolate_def distance_def point_vector_def jsub_def
        fromBtoA_def fixPrecision_def Inch_def round3_def Let_def nth_append sqrt_16)
  then show ?thesis
    by (simp add: ghostLine_def fromAtoB_def fixPrecision_def Inch_def round3_def)
qed

text \<open>
  Claim C2, as the code has it. With the unit inch and the sampled points ending with
  \<open>(10, 0)\<close> and \<open>(14, 0)\<close>, the ghost line is the point \<open>(34, 0)\<close> with speed \<open>0\<close>:
  the distance is \<open>4\<close>, and \<open>4 + 20 = 24\<close> from \<open>(10, 0)\<close> toward \<open>(14, 0)\<close> is
  \<open>(34, 0)\<close>.
\<close>

theorem export_ghost_10_14:
  fixes str :: "jsnum \<Rightarrow> string"
    and calculatePoints :: "Path \<Rightarrow> Point list" and app :: MainApp and path :: Path
  assumes "interestedPath app = Some path" and "splines path \<noteq> []"
    and "calculatePoints path = before @ [Point (Fin 10) (Fin 0) s2, Point (Fin 14) (Fin 0) s1]"
  shows "exportPathFile str Inch calculatePoints app =
           Inr (concat (map (pointLine str (UnitConverter Inch Inch)) (calculatePoints path)) @
                (str (Fin 34) @ '', '' @ str (Fin 0) @ '', 0\<newline>'') @
                ''endData\<newline>200\<newline>'' @ str (range_to (speedLimit (pc path))) @ ''\<newline>200\<newline>'' @
                concat (map (splineLine str (UnitConverter Inch Inch)) (splines path)) @
                ''#PATH.JERRYIO-DATA '' @ exportPathFileData app)"
  using exportPathFile_text [OF assms(1,2), of str Inch calculatePoints]
  by (simp add: assms(3) ghostLine_10_14)

theorem export_ghost_10_14_witness:
  "interestedPath example_app_14 = Some example_path_14 \<and>
   splines example_path_14 \<noteq> [] \<and>
   example_points_14 =
     [Point (Fin 0) (Fin 0) (Fin 50)] @ [Point (Fin 10) (Fin 0) (Fin 50), Point (Fin 14) (Fin 0) (Fin 0)] \<and>
   exportPathFile Number_toString Inch (\<lambda>path. example_points_14) example_app_14 =
     Inr ''0, 0, 50\<newline>10, 0, 50\<newline>14, 0, 0\<newline>34, 0, 0\<newline>endData\<newline>200\<newline>100\<newline>200\<newline>0, 0, 7, 0, 7, 0, 14, 0\<newline>#PATH.JERRYIO-DATA {}''"
proof -
  have h1: "interestedPath example_app_14 = Some example_path_14"
    by (simp add: example_app_14_def)
  have h2: "splines example_path_14 \<noteq> []"
    by (simp add: example_path_14_def)
  have h3: "example_points_14 =
     [Point (Fin 0) (Fin 0) (Fin 50)] @ [Point (Fin 10) (Fin 0) (Fin 50), Point (Fin 14) (Fin 0) (Fin 0)]"
    by (simp add: example_points_14_def)
  have e: "concat (map (pointLine Number_toString (UnitConverter Inch Inch)) example_points_14) @
           (Number_toString (Fin 34) @ '', '' @ Number_toString (Fin 0) @ '', 0\<newline>'') @
           ''endData\<newline>200\<newline>'' @
           Number_toString (range_to (speedLimit (pc example_path_14))) @ ''\<newline>200\<newline>'' @
           concat (map (splineLine Number_toString (UnitConverter Inch Inch)) (splines example_path_14)) @
           ''#PATH.JERRYIO-DATA '' @ exportPathFileData example_app_14 =
           ''0, 0, 50\<newline>10, 0, 50\<newline>14, 0, 0\<newline>34, 0, 0\<newline>endData\<newline>200\<newline>100\<newline>200\<newline>0, 0, 7, 0, 7, 0, 14, 0\<newline>#PATH.JERRYIO-DATA {}''"
    by code_simp
  have "exportPathFile Number_toString Inch (\<lambda>path. example_points_14) example_app_14 =
     Inr ''0, 0, 50\<newline>10, 0, 50\<newline>14, 0, 0\<newline>34, 0, 0\<newline>endData\<newline>200\<newline>100\<newline>200\<newline>0, 0, 7, 0, 7, 0, 14, 0\<newline>#PATH.JERRYIO-DATA {}''"
    using export_ghost_10_14 [where str = Number_toString
        and calculatePoints = "\<lambda>path. example_points_14", OF h1 h2 h3]
    by (simp only: e)
  with h1 h2 h3 show ?thesis by (intro conjI)
qed

text \<open>The ghost line of the example is \<open>34, 0, 0\<close>, not \<open>18, 0, 0\<close>.\<close>

theorem export_ghost_not_18:
  "ghostLine Number_toString (UnitConverter Inch Inch) example_points_14 = ''34, 0, 0\<newline>'' \<and>
   ghostLine Number_toString (UnitConverter Inch Inch) example_points_14 \<noteq> ''18, 0, 0\<newline>'' \<and>
   exportPathFile Number_toString Inch (\<lambda>path. example_points_14) example_app_14 =
     Inr ''0, 0, 50\<newline>10, 0, 50\<newline>14, 0, 0\<newline>34, 0, 0\<newline>endData\<newline>200\<newline>100\<newline>200\<newline>0, 0, 7, 0, 7, 0, 14, 0\<newline>#PATH.JERRYIO-DATA {}''"
proof -
  have n: "Number_toString (Fin 34) @ '', '' @ Number_toString (Fin 0) @ '', 0\<newline>'' = ''34, 0, 0\<newline>''"
    by code_simp
  have "ghostLine Number_toString (UnitConverter Inch Inch) example_points_14 =
          Number_toString (Fin 34) @ '', '' @ Number_toString (Fin 0) @ '', 0\<newline>''"
    unfolding example_points_14_def
    using ghostLine_10_14 [of Number_toString "[Point (Fin 0) (Fin 0) (Fin 50)]" "Fin 50" "Fin 0"]
    by simp
  then have g: "ghostLine Number_toString (UnitConverter Inch Inch) example_points_14 = ''34, 0, 0\<newline>''"
    unfolding n .
  have e: "concat (map (pointLine Number_toString (UnitConverter Inch Inch)) example_points_14) @
           ''34, 0, 0\<newline>'' @
           ''endData\<newline>200\<newline>'' @
           Number_toString (range_to (speedLimit (pc example_path_14))) @ ''\<newline>200\<newline>'' @
           concat (map (splineLine Number_toString (UnitConverter Inch Inch)) (splines example_path_14)) @
           ''#PATH.JERRYIO-DATA '' @ exportPathFileData example_app_14 =
           ''0, 0, 50\<newline>10, 0, 50\<newline>14, 0, 0\<newline>34, 0, 0\<newline>endData\<newline>200\<newline>100\<newline>200\<newline>0, 0, 7, 0, 7, 0, 14, 0\<newline>#PATH.JERRYIO-DATA {}''"
    by code_simp
  have t: "exportPathFile Number_toString Inch (\<lambda>path. example_points_14) example_app_14 =
     Inr ''0, 0, 50\<newline>10, 0, 50\<newline>14, 0, 0\<newline>34, 0, 0\<newline>endData\<newline>200\<newline>100\<newline>200\<newline>0, 0, 7, 0, 7, 0, 14, 0\<newline>#PATH.JERRYIO-DATA {}''"
    using exportPathFile_text [of example_app_14 example_path_14 Number_toString Inch
        "\<lambda>path. example_points_14"]
    by (simp only: g e) (simp add: example_app_14_def example_path_14_def)
  have "''34, 0, 0\<newline>'' \<noteq> ''18, 0, 0\<newline>''" by simp
  with g t show ?thesis by simp
qed

subsection \<open>Straight splines\<close>

text \<open>
  Claim C7. A spline of two controls \<open>p0\<close> and \<open>p1\<close> is written as the line of the
  four points \<open>p0\<close>, the midpoint of \<open>p0\<close> and \<open>p1\<close>, the midpoint again, and \<open>p1\<close>,
  each converted to inches.
\<close>

theorem export_straight_spline:
  fixes str :: "jsnum \<Rightarrow> string" and uol :: UnitOfLength
    and calculatePoints :: "Path \<Rightarrow> Point list" and app :: MainApp and path :: Path
  assumes "interestedPath app = Some path"
    and "splines path = before @ Spline p0 [] p1 # after"
  defines "uc \<equiv> UnitConverter uol Inch"
  defines "mx \<equiv> jdiv (jadd (cx p0) (cx p1)) (Fin 2)"
  defines "my \<equiv> jdiv (jadd (cy p0) (cy p1)) (Fin 2)"
  shows "exportPathFile str uol calculatePoints app =
           Inr (concat (map (pointLine str uc) (calculatePoints path)) @
                ghostLine str uc (calculatePoints path) @
                ''endData\<newline>200\<newline>'' @ str (range_to (speedLimit (pc path))) @ ''\<newline>200\<newline>'' @
                concat (map (splineLine str uc) before) @
                (str (fromAtoB uc (cx p0)) @ '', '' @ str (fromAtoB uc (cy p0)) @ '', '' @
                 str (fromAtoB uc mx) @ '', '' @ str (fromAtoB uc my) @ '', '' @
                 str (fromAtoB uc mx) @ '', '' @ str (fromAtoB uc my) @ '', '' @
                 str (fromAtoB uc (cx p1)) @ '', '' @ str (fromAtoB uc (cy p1)) @ ''\<newline>'') @
                concat (map (splineLine str uc) after) @
                ''#PATH.JERRYIO-DATA '' @ exportPathFileData app)"
proof -
  have ne: "splines path \<noteq> []"
    using assms(2) by simp
  have "splineLine str uc (Spline p0 [] p1) =
          str (fromAtoB uc (cx p0)) @ '', '' @ str (fromAtoB uc (cy p0)) @ '', '' @
          str (fromAtoB uc mx) @ '', '' @ str (fromAtoB uc my) @ '', '' @
          str (fromAtoB uc mx) @ '', '' @ str (fromAtoB uc my) @ '', '' @
          str (fromAtoB uc (cx p1)) @ '', '' @ str (fromAtoB uc (cy p1)) @ ''\<newline>''"
    by (simp add: splineLine_def controls_def output_control_def control_vector_def
        vector_add_def vector_divide_def mx_def my_def)
  then show ?thesis
    using exportPathFile_text [OF assms(1) ne, of str uol calculatePoints]
    by (simp add: assms(2) uc_def)
qed

text \<open>The end points \<open>(0, 0)\<close> and \<open>(10, 0)\<close> give \<open>(0, 0), (5, 0), (5, 0), (10, 0)\<close>.\<close>

theorem export_straight_spline_witness:
  "interestedPath example_app = Some example_path \<and>
   splines example_path =
     [] @ Spline (EndPointControl (Fin 0) (Fin 0) (Fin 0)) []
                 (EndPointControl (Fin 10) (Fin 0) (Fin 0)) # [] \<and>
   exportPathFile Number_toString Inch (\<lambda>path. [Point (Fin 0) (Fin 0) (Fin 50)]) example_app =
     Inr ''0, 0, 50\<newline>endData\<newline>200\<newline>100\<newline>200\<newline>0, 0, 5, 0, 5, 0, 10, 0\<newline>#PATH.JERRYIO-DATA {}''"
proof -
  let ?uc = "UnitConverter Inch Inch"
  let ?p0 = "EndPointControl (Fin 0) (Fin 0) (Fin 0)"
  let ?p1 = "EndPointControl (Fin 10) (Fin 0) (Fin 0)"
  have h1: "interestedPath example_app = Some example_path"
    by (simp add: example_app_def)
  have h2: "splines example_path = [] @ Spline ?p0 [] ?p1 # []"
    by (simp add: example_path_def)
  have g: "ghostLine Number_toString ?uc [Point (Fin 0) (Fin 0) (Fin 50)] = []"
    by (simp add: ghostLine_def)
  have e: "concat (map (pointLine Number_toString ?uc) [Point (Fin 0) (Fin 0) (Fin 50)]) @
           [] @
           ''endData\<newline>200\<newline>'' @
           Number_toString (range_to (speedLimit (pc example_path))) @ ''\<newline>200\<newline>'' @
           concat (map (splineLine Number_toString ?uc) []) @
           (Number_toString (fromAtoB ?uc (cx ?p0)) @ '', '' @
            Number_toString (fromAtoB ?uc (cy ?p0)) @ '', '' @
            Number_toString (fromAtoB ?uc (jdiv (jadd (cx ?p0) (cx ?p1)) (Fin 2))) @ '', '' @
            Number_toString (fromAtoB ?uc (jdiv (jadd (cy ?p0) (cy ?p1)) (Fin 2))) @ '', '' @
            Number_toString (fromAtoB ?uc (jdiv (jadd (cx ?p0) (cx ?p1)) (Fin 2))) @ '', '' @
            Number_toString (fromAtoB ?uc (jdiv (jadd (cy ?p0) (cy ?p1)) (Fin 2))) @ '', '' @
            Number_toString (fromAtoB ?uc (cx ?p1)) @ '', '' @
            Number_toString (fromAtoB ?uc (cy ?p1)) @ ''\<newline>'') @
           concat (map (splineLine Number_toString ?uc) []) @
           ''#PATH.JERRYIO-DATA '' @ exportPathFileData example_app =
           ''0, 0, 50\<newline>endData\<newline>200\<newline>100\<newline>200\<newline>0, 0, 5, 0, 5, 0, 10, 0\<newline>#PATH.JERRYIO-DATA {}''"
    by code_simp
  have "exportPathFile Number_toString Inch (\<lambda>path. [Point (Fin 0) (Fin 0) (Fin 50)]) example_app =
     Inr ''0, 0, 50\<newline>endData\<newline>200\<newline>100\<newline>200\<newline>0, 0, 5, 0, 5, 0, 10, 0\<newline>#PATH.JERRYIO-DATA {}''"
    using export_straight_spline [where str = Number_toString and uol = Inch
        and calculatePoints = "\<lambda>path. [Point (Fin 0) (Fin 0) (Fin 50)]", OF h1 h2]
    by (simp only: g e)
  with h1 h2 show ?thesis by (intro conjI)
qed

section \<open>Serialising and parsing again\<close>

subsection \<open>The lines of the serialised text\<close>






















subsection \<open>The printer of the examples\<close>

















subsection \<open>Rounding\<close>




subsection \<open>The round trip\<close>






end
